theory Spec2Isabelle
  imports Complex_Main "HOL-Library.Word"
begin

section \<open>NumPy values used by the notebook\<close>

text \<open>
  The notebook \<^verbatim>\<open>Coregistration.ipynb\<close> defines two pieces of code of its own: the class
  \<^verbatim>\<open>MaxCCPredicate\<close> and the function \<^verbatim>\<open>make_gif\<close>. Both work on NumPy arrays.
  An array is its shape together with its entries in row-major order. A floating-point
  value is a real number, an infinity or NaN. The rounding of an exact result to the
  nearest number of the floating-point type is the parameter \<open>rnd\<close> of the operations
  that round: every property below holds for every such function, the rounding of
  float32 and of float64 among them, and \<open>rnd = id\<close> is exact arithmetic.
\<close>

datatype py_error = ValueError | IndexError

datatype npfloat = Fin real | PInf | NInf | NaN

record 'a ndarray =
  shape :: "nat list"
  data :: "'a list"

definition well_shaped :: "'a ndarray \<Rightarrow> bool" where
  "well_shaped a = (length (data a) = prod_list (shape a))"

text \<open>The comparison \<^verbatim>\<open><=\<close> of floating-point values: false as soon as one side is NaN.\<close>

fun fle :: "npfloat \<Rightarrow> npfloat \<Rightarrow> bool" where
  "fle NaN y = False"
| "fle x NaN = False"
| "fle NInf y = True"
| "fle x PInf = True"
| "fle (Fin a) (Fin b) = (a \<le> b)"
| "fle (Fin a) NInf = False"
| "fle PInf y = False"

text \<open>
  \<^verbatim>\<open>np.sum\<close> of a mask of dtype uint8 or bool adds the entries up in a 64-bit integer;
  the entries are natural numbers and the sum is exact (a mask that fits in memory stays
  far below the 64 bits).
\<close>

definition np_sum :: "nat ndarray \<Rightarrow> nat" where
  "np_sum a = sum_list (data a)"

text \<open>
  \<^verbatim>\<open>/\<close> of a NumPy integer scalar by an integer is true division in float64: the
  exact quotient, rounded. Division by zero raises nothing: it gives NaN for \<^verbatim>\<open>0 / 0\<close>
  and infinity otherwise (with a warning).
\<close>

definition true_divide :: "(real \<Rightarrow> real) \<Rightarrow> nat \<Rightarrow> nat \<Rightarrow> npfloat" where
  "true_divide rnd s n =
     (if n = 0 then (if s = 0 then NaN else PInf) else Fin (rnd (real s / real n)))"

section \<open>MaxCCPredicate\<close>

text \<open>
  \<^verbatim>\<open>
  class MaxCCPredicate:
      def __init__(self, maxcc):
          self.maxcc = maxcc

      def __call__(self, img_cm):
          w, h, _ = img_cm.shape
          cc = np.sum(img_cm) / (w * h)
          return cc <= self.maxcc
  \<close>
  Unpacking the shape into three names raises ValueError unless the array has exactly
  three dimensions.
\<close>

record MaxCCPredicate =
  maxcc :: npfloat

definition MaxCCPredicate_init :: "npfloat \<Rightarrow> MaxCCPredicate" where
  "MaxCCPredicate_init m = \<lparr>maxcc = m\<rparr>"

definition MaxCCPredicate_call ::
  "(real \<Rightarrow> real) \<Rightarrow> MaxCCPredicate \<Rightarrow> nat ndarray \<Rightarrow> py_error + bool" where
  "MaxCCPredicate_call rnd self img_cm =
     (case shape img_cm of
        [w, h, c] \<Rightarrow>
          (let cc = true_divide rnd (np_sum img_cm) (w * h)
           in Inr (fle cc (maxcc self)))
      | _ \<Rightarrow> Inl ValueError)"

section \<open>make_gif\<close>

text \<open>
  \<^verbatim>\<open>
  def make_gif(eopatch, project_dir, filename, fps):
      with imageio.get_writer(os.path.join(project_dir, filename), mode='I', fps=fps) as writer:
          for image in eopatch:
              writer.append_data(np.array(np.clip(2.8*image[..., [2, 1, 0]], 0, 255), dtype=np.uint8))
  \<close>
  The writer is the list of frames appended so far; the file name and the frame rate do
  not touch the frames. An exception leaves the frames appended before it in place.
\<close>

text \<open>The entries of an array cut into the vectors along its last axis.\<close>

function chunks :: "nat \<Rightarrow> 'a list \<Rightarrow> 'a list list" where
  "chunks n xs = (if n = 0 \<or> xs = [] then [] else take n xs # chunks n (drop n xs))"
  by pat_completeness auto
termination
  by (relation "measure (\<lambda>(n, xs). length xs)") auto

declare chunks.simps [simp del]

text \<open>
  \<^verbatim>\<open>a[..., idx]\<close> for a list \<open>idx\<close> of non-negative indices: along the last axis, the
  entries at the indices of \<open>idx\<close>, in that order. An index beyond the last axis raises
  IndexError, and so does indexing a zero-dimensional array.
\<close>

definition take_last_axis :: "nat list \<Rightarrow> 'a ndarray \<Rightarrow> py_error + 'a ndarray" where
  "take_last_axis idx a =
     (if shape a = [] then Inl IndexError
      else let c = last (shape a) in
        if \<exists>i \<in> set idx. c \<le> i then Inl IndexError
        else Inr \<lparr>shape = butlast (shape a) @ [length idx],
                  data = concat (map (\<lambda>p. map (\<lambda>i. p ! i) idx) (chunks c (data a)))\<rparr>)"

text \<open>Elementwise operations keep the shape.\<close>

definition map_ndarray :: "('a \<Rightarrow> 'b) \<Rightarrow> 'a ndarray \<Rightarrow> 'b ndarray" where
  "map_ndarray f a = \<lparr>shape = shape a, data = map f (data a)\<rparr>"

text \<open>
  \<^verbatim>\<open>k * x\<close> for a Python float \<open>k\<close> and an entry \<open>x\<close> of a float array: the scalar
  is taken in the type of the array, and the exact product is rounded. (A product beyond
  the range of the type is an infinity in NumPy and a large number here; the clamp that
  follows in \<^verbatim>\<open>make_gif\<close> sends both to the same bound.)
\<close>

fun fmul :: "(real \<Rightarrow> real) \<Rightarrow> real \<Rightarrow> npfloat \<Rightarrow> npfloat" where
  "fmul rnd c (Fin x) = Fin (rnd (c * x))"
| "fmul rnd c PInf = (if 0 < c then PInf else if c < 0 then NInf else NaN)"
| "fmul rnd c NInf = (if 0 < c then NInf else if c < 0 then PInf else NaN)"
| "fmul rnd c NaN = NaN"

definition fscale :: "(real \<Rightarrow> real) \<Rightarrow> real \<Rightarrow> npfloat \<Rightarrow> npfloat" where
  "fscale rnd k x = fmul rnd (rnd k) x"

text \<open>\<^verbatim>\<open>np.clip(x, lo, hi)\<close> is \<^verbatim>\<open>minimum(maximum(x, lo), hi)\<close>; NaN stays NaN.\<close>

fun fclip :: "real \<Rightarrow> real \<Rightarrow> npfloat \<Rightarrow> npfloat" where
  "fclip lo hi (Fin x) = Fin (min (max x lo) hi)"
| "fclip lo hi PInf = Fin hi"
| "fclip lo hi NInf = Fin (min lo hi)"
| "fclip lo hi NaN = NaN"

text \<open>
  The cast of a float to uint8 drops the fraction (rounds towards zero) and keeps the
  low eight bits. The cast of NaN or of an infinity is not defined by NumPy; on the
  usual platforms it gives 0.
\<close>

definition float_trunc :: "real \<Rightarrow> int" where
  "float_trunc x = (if 0 \<le> x then \<lfloor>x\<rfloor> else \<lceil>x\<rceil>)"

fun to_uint8 :: "npfloat \<Rightarrow> 8 word" where
  "to_uint8 (Fin x) = word_of_int (float_trunc x)"
| "to_uint8 PInf = 0"
| "to_uint8 NInf = 0"
| "to_uint8 NaN = 0"

definition np_scale :: "(real \<Rightarrow> real) \<Rightarrow> real \<Rightarrow> npfloat ndarray \<Rightarrow> npfloat ndarray" where
  "np_scale rnd k a = map_ndarray (fscale rnd k) a"

definition np_clip :: "npfloat ndarray \<Rightarrow> real \<Rightarrow> real \<Rightarrow> npfloat ndarray" where
  "np_clip a lo hi = map_ndarray (fclip lo hi) a"

definition astype_uint8 :: "npfloat ndarray \<Rightarrow> 8 word ndarray" where
  "astype_uint8 a = map_ndarray to_uint8 a"

text \<open>The argument of \<^verbatim>\<open>writer.append_data\<close> for one image.\<close>

definition gif_frame :: "(real \<Rightarrow> real) \<Rightarrow> npfloat ndarray \<Rightarrow> py_error + 8 word ndarray" where
  "gif_frame rnd img =
     (case take_last_axis [2, 1, 0] img of
        Inl e \<Rightarrow> Inl e
      | Inr sel \<Rightarrow> Inr (astype_uint8 (np_clip (np_scale rnd 2.8 sel) 0 255)))"

text \<open>The loop over the images, with the frames written so far.\<close>

fun make_gif_loop ::
  "(real \<Rightarrow> real) \<Rightarrow> npfloat ndarray list \<Rightarrow> 8 word ndarray list
     \<Rightarrow> 8 word ndarray list \<times> py_error option" where
  "make_gif_loop rnd [] writer = (writer, None)"
| "make_gif_loop rnd (img # rest) writer =
     (case gif_frame rnd img of
        Inl e \<Rightarrow> (writer, Some e)
      | Inr frame \<Rightarrow> make_gif_loop rnd rest (writer @ [frame]))"

definition make_gif ::
  "(real \<Rightarrow> real) \<Rightarrow> npfloat ndarray list \<Rightarrow> 8 word ndarray list \<times> py_error option" where
  "make_gif rnd eopatch = make_gif_loop rnd eopatch []"

text \<open>
  The frame as the specification words it: the image with its first and third channels
  swapped, scaled by 2.8, clamped to [0, 255] and cast to uint8.
\<close>

definition swap_first_third :: "'a list \<Rightarrow> 'a list" where
  "swap_first_third p = p[0 := p ! 2, 2 := p ! 0]"

definition spec_swap_channels :: "'a ndarray \<Rightarrow> 'a ndarray" where
  "spec_swap_channels a =
     \<lparr>shape = shape a,
      data = concat (map swap_first_third (chunks (last (shape a)) (data a)))\<rparr>"

definition spec_gif_frame :: "(real \<Rightarrow> real) \<Rightarrow> npfloat ndarray \<Rightarrow> 8 word ndarray" where
  "spec_gif_frame rnd img =
     astype_uint8 (np_clip (np_scale rnd 2.8 (spec_swap_channels img)) 0 255)"

section \<open>The resampler of the registration engine\<close>

text \<open>
  The registration classes the notebook calls (\<^verbatim>\<open>ThunderRegistration\<close>,
  \<^verbatim>\<open>ECCRegistration\<close>, \<^verbatim>\<open>PointBasedRegistration\<close>) are imported from the package
  \<^verbatim>\<open>eolearn.coregistration\<close>; their code is not part of the notebook. The notebook
  only says of them that "a nearest neighbour interpolation is used on ground-truth data to
  avoid creation of new labels". The definitions of this section follow the
  specification's sections 3, 4.1 and 4.2 instead. Numbers are real numbers, a raster is
  the list of its rows, and pixel \<open>(x, y)\<close> is column \<open>x\<close> of row \<open>y\<close>, the coordinates
  naming pixel centres.
\<close>

text \<open>Modelled from the spec: the family tag of a TransformModel (section 3); the type is
  missing from the sources.\<close>

datatype TransformFamily = Identity | Translation | Euler | Affine | Homography

text \<open>Modelled from the spec: the "3x3 homogeneous planar transform matrix" of a
  TransformModel (section 3), as its three rows; the type is missing from the sources.\<close>

type_synonym mat3 =
  "(real \<times> real \<times> real) \<times> (real \<times> real \<times> real) \<times> (real \<times> real \<times> real)"

text \<open>Modelled from the spec: TransformModel, "a 3x3 homogeneous planar transform matrix plus
  a tag identifying its family" (section 3); the type is missing from the sources.\<close>

record TransformModel =
  family :: TransformFamily
  matrix :: mat3

text \<open>Modelled from the spec: the error SingularTransformError, "transform inversion
  impossible" (section 7); the type is missing from the sources.\<close>

datatype transform_error = SingularTransformError

text \<open>Modelled from the spec: the construction of a TransformModel of the translation family
  from its parameters \<open>dx\<close>, \<open>dy\<close> (section 4.1); the constructor is missing from the
  sources.\<close>

definition translation :: "real \<Rightarrow> real \<Rightarrow> TransformModel" where
  "translation dx dy = \<lparr>family = Translation, matrix = ((1, 0, dx), (0, 1, dy), (0, 0, 1))\<rparr>"

text \<open>Modelled from the spec: the determinant that \<^verbatim>\<open>invert()\<close> tests (section 4.1); the
  function is missing from the sources.\<close>

fun det3 :: "mat3 \<Rightarrow> real" where
  "det3 ((a, b, c), (d, e, f), (g, h, i)) =
     a * (e * i - f * h) - b * (d * i - f * g) + c * (d * h - e * g)"

text \<open>Modelled from the spec: the inverse matrix that \<^verbatim>\<open>invert()\<close> returns (section 4.1),
  as the adjugate over the determinant; the function is missing from the sources.\<close>

fun inverse3 :: "mat3 \<Rightarrow> mat3" where
  "inverse3 ((a, b, c), (d, e, f), (g, h, i)) =
     (let k = det3 ((a, b, c), (d, e, f), (g, h, i)) in
      (((e * i - f * h) / k, (c * h - b * i) / k, (b * f - c * e) / k),
       ((f * g - d * i) / k, (a * i - c * g) / k, (c * d - a * f) / k),
       ((d * h - e * g) / k, (b * g - a * h) / k, (a * e - b * d) / k)))"

text \<open>Modelled from the spec: \<^verbatim>\<open>invert()\<close>, which "fails with SingularTransformError when
  the matrix determinant is below a numerical tolerance" (section 4.1); the method is missing
  from the sources. The determinant is compared by its magnitude.\<close>

definition invert :: "real \<Rightarrow> TransformModel \<Rightarrow> transform_error + TransformModel" where
  "invert tol t =
     (if \<bar>det3 (matrix t)\<bar> < tol then Inl SingularTransformError
      else Inr \<lparr>family = family t, matrix = inverse3 (matrix t)\<rparr>)"

text \<open>Modelled from the spec: \<^verbatim>\<open>apply(point)\<close>, which "maps a 2D point through the
  homogeneous transform and re-normalizes by the homogeneous coordinate" (section 4.1); the
  method is missing from the sources. A point whose homogeneous coordinate is zero has no
  image.\<close>

fun apply_matrix :: "mat3 \<Rightarrow> real \<times> real \<Rightarrow> (real \<times> real) option" where
  "apply_matrix ((a, b, c), (d, e, f), (g, h, i)) (x, y) =
     (let w = g * x + h * y + i in
      if w = 0 then None
      else Some ((a * x + b * y + c) / w, (d * x + e * y + f) / w))"

text \<open>Modelled from the spec: \<^verbatim>\<open>apply(point)\<close> on a TransformModel (section 4.1), the
  map above at its matrix; the method is missing from the sources.\<close>

definition apply_point :: "TransformModel \<Rightarrow> real \<times> real \<Rightarrow> (real \<times> real) option" where
  "apply_point t p = apply_matrix (matrix t) p"

text \<open>Modelled from the spec: the interpolation kinds of the configuration surface,
  "interpolation: Nearest|Linear|Cubic" (section 6); the type is missing from the
  sources.\<close>

datatype Interpolation = Nearest | Linear | Cubic

text \<open>Modelled from the spec: LayerKind, the "classification of a raster layer as continuous
  or categorical" (section 3); the type is missing from the sources.\<close>

datatype LayerKind = Continuous | Categorical

text \<open>Modelled from the spec: a raster layer as a two-dimensional array (section 3), the
  list of its rows; the values of a categorical layer are its labels. The type is missing
  from the sources.\<close>

type_synonym raster = "real list list"

text \<open>Modelled from the spec: the read of a source pixel, where "out-of-bounds source
  positions fill with a configurable sentinel" (section 4.2); the function is missing from
  the sources.\<close>

definition pixel_at :: "raster \<Rightarrow> real \<Rightarrow> int \<Rightarrow> int \<Rightarrow> real" where
  "pixel_at src fill x y =
     (if 0 \<le> y \<and> y < int (length src) \<and> 0 \<le> x \<and> x < int (length (src ! nat y))
      then src ! nat y ! nat x else fill)"

text \<open>Modelled from the spec: the kernel \<^emph>\<open>nearest\<close>, "round to closest source pixel"
  (section 4.2); the function is missing from the sources.\<close>

definition sample_nearest :: "raster \<Rightarrow> real \<Rightarrow> real \<times> real \<Rightarrow> real" where
  "sample_nearest src fill p = pixel_at src fill (round (fst p)) (round (snd p))"

text \<open>Modelled from the spec: the kernel \<^emph>\<open>linear\<close>, "bilinear weighted average of 4
  neighbors" (section 4.2); the function is missing from the sources.\<close>

definition sample_linear :: "raster \<Rightarrow> real \<Rightarrow> real \<times> real \<Rightarrow> real" where
  "sample_linear src fill p =
     (let x0 = \<lfloor>fst p\<rfloor>; y0 = \<lfloor>snd p\<rfloor>;
          fx = fst p - of_int x0; fy = snd p - of_int y0
      in (1 - fx) * (1 - fy) * pixel_at src fill x0 y0
       + fx * (1 - fy) * pixel_at src fill (x0 + 1) y0
       + (1 - fx) * fy * pixel_at src fill x0 (y0 + 1)
       + fx * fy * pixel_at src fill (x0 + 1) (y0 + 1))"

text \<open>Modelled from the spec: the weights of the kernel \<^emph>\<open>cubic\<close>, "16-neighbor bicubic
  kernel" (section 4.2); the function is missing from the sources. The weights are those of
  cubic convolution, whose coefficient \<open>a\<close> the specification leaves open.\<close>

definition cubic_kernel :: "real \<Rightarrow> real \<Rightarrow> real" where
  "cubic_kernel a x =
     (let t = \<bar>x\<bar> in
      if t \<le> 1 then (a + 2) * t ^ 3 - (a + 3) * t ^ 2 + 1
      else if t < 2 then a * t ^ 3 - 5 * a * t ^ 2 + 8 * a * t - 4 * a
      else 0)"

text \<open>Modelled from the spec: the value of the kernel \<^emph>\<open>cubic\<close> at a position, the
  weighted sum over the 16 neighbours (section 4.2); the function is missing from the
  sources.\<close>

definition sample_cubic :: "real \<Rightarrow> raster \<Rightarrow> real \<Rightarrow> real \<times> real \<Rightarrow> real" where
  "sample_cubic a src fill p =
     (let x0 = \<lfloor>fst p\<rfloor>; y0 = \<lfloor>snd p\<rfloor> in
      sum_list (map (\<lambda>j. sum_list (map (\<lambda>i.
          cubic_kernel a (fst p - of_int (x0 + i)) * cubic_kernel a (snd p - of_int (y0 + j))
            * pixel_at src fill (x0 + i) (y0 + j)) [-1, 0, 1, 2])) [-1, 0, 1, 2]))"

text \<open>Modelled from the spec: the choice among the three "interpolation kernels"
  (section 4.2); the function is missing from the sources.\<close>

fun sample :: "real \<Rightarrow> Interpolation \<Rightarrow> raster \<Rightarrow> real \<Rightarrow> real \<times> real \<Rightarrow> real" where
  "sample a Nearest src fill p = sample_nearest src fill p"
| "sample a Linear src fill p = sample_linear src fill p"
| "sample a Cubic src fill p = sample_cubic a src fill p"

text \<open>Modelled from the spec: \<^verbatim>\<open>resample(sourceLayer, transform, interpolation, outputShape)\<close>,
  which "produces a new raster of outputShape where each output pixel's value is sampled from
  the source raster at the position obtained by inverse-mapping the output pixel through
  transform" (section 4.2); the function is missing from the sources. The output shape is
  (rows, columns).\<close>

definition resample ::
  "real \<Rightarrow> real \<Rightarrow> raster \<Rightarrow> TransformModel \<Rightarrow> Interpolation \<Rightarrow> nat \<times> nat \<Rightarrow> real
     \<Rightarrow> transform_error + raster" where
  "resample tol a sourceLayer transform interpolation outputShape fill =
     (case invert tol transform of
        Inl e \<Rightarrow> Inl e
      | Inr inv_t \<Rightarrow>
          Inr (map (\<lambda>y. map (\<lambda>x.
                 (case apply_point inv_t (real x, real y) of
                    None \<Rightarrow> fill
                  | Some p \<Rightarrow> sample a interpolation sourceLayer fill p))
               [0..<snd outputShape]) [0..<fst outputShape]))"

text \<open>Modelled from the spec: the part of the configuration that resampling reads
  (sections 4.2 and 6): the output interpolation kind, the two fill sentinels ("zero for
  continuous, a designated no-data label for categorical"), the numerical tolerance of
  inversion and the coefficient of the cubic kernel; the type is missing from the sources.\<close>

record AlignerConfig =
  interpolation :: Interpolation
  continuous_fill :: real
  nodata_label :: real
  singular_tolerance :: real
  cubic_coefficient :: real

text \<open>Modelled from the spec: the interpolation policy of StackAligner, a continuous layer
  "interpolated with the configured kernel", a categorical one "always interpolated with
  nearest-neighbor regardless of global configuration" (section 3); the function is missing
  from the sources.\<close>

fun layer_interpolation :: "AlignerConfig \<Rightarrow> LayerKind \<Rightarrow> Interpolation" where
  "layer_interpolation cfg Categorical = Nearest"
| "layer_interpolation cfg Continuous = interpolation cfg"

text \<open>Modelled from the spec: the fill sentinel by layer kind, "zero for continuous, a
  designated no-data label for categorical" (section 4.2), both configurable; the function
  is missing from the sources.\<close>

fun layer_fill :: "AlignerConfig \<Rightarrow> LayerKind \<Rightarrow> real" where
  "layer_fill cfg Categorical = nodata_label cfg"
| "layer_fill cfg Continuous = continuous_fill cfg"

text \<open>Modelled from the spec: the shape (rows, columns) of a layer, which the output of
  the aligner keeps (section 6, "same shape"); the function is missing from the sources.\<close>

definition raster_shape :: "raster \<Rightarrow> nat \<times> nat" where
  "raster_shape r = (length r, (case r of [] \<Rightarrow> 0 | row # _ \<Rightarrow> length row))"

text \<open>Modelled from the spec: the step of StackAligner that "applies the transform via
  Resampler to every layer of that frame, choosing interpolation per layer semantics"
  (section 2), for one layer; the output has the shape of the layer. The function is
  missing from the sources.\<close>

definition resample_layer ::
  "AlignerConfig \<Rightarrow> LayerKind \<Rightarrow> raster \<Rightarrow> TransformModel \<Rightarrow> transform_error + raster" where
  "resample_layer cfg kind layer t =
     resample (singular_tolerance cfg) (cubic_coefficient cfg) layer t
       (layer_interpolation cfg kind) (raster_shape layer) (layer_fill cfg kind)"

text \<open>Modelled from the spec: a layer's "value set" (section 8, categorical layer
  integrity); the function is missing from the sources.\<close>

definition raster_values :: "raster \<Rightarrow> real set" where
  "raster_values r = set (concat r)"

section \<open>Properties of MaxCCPredicate\<close>

lemma MaxCCPredicate_call_nonempty:
  assumes "shape a = [w, h, c]" and "0 < w * h"
  shows "MaxCCPredicate_call rnd self a =
           Inr (fle (Fin (rnd (real (sum_list (data a)) / real (w * h)))) (maxcc self))"
  using assms by (simp add: MaxCCPredicate_call_def true_divide_def np_sum_def)

lemma sum_list_all_zero: "\<forall>x \<in> set xs. x = (0::nat) \<Longrightarrow> sum_list xs = 0"
  by (induction xs) auto

text \<open>
  A mask of shape \<open>(0, 5, 1)\<close> has no entry, so all its entries are zero, and 0.05 is not
  negative; its sum is 0, the divisor \<open>w * h\<close> is 0, the quotient is NaN (nothing is
  rounded) and the comparison with the threshold is false: the mask is rejected.
\<close>

theorem MaxCCPredicate_empty_mask_rejected:
  "MaxCCPredicate_call id (MaxCCPredicate_init (Fin 0.05)) \<lparr>shape = [0, 5, 1], data = []\<rparr>
     = Inr False
   \<and> well_shaped \<lparr>shape = [0, 5, 1], data = ([] :: nat list)\<rparr>
   \<and> fle (Fin 0) (Fin 0.05)"
  by (simp add: MaxCCPredicate_call_def MaxCCPredicate_init_def true_divide_def np_sum_def
      well_shaped_def)

text \<open>
  Claim C9, as amended. For every three-dimensional mask of shape \<open>(w, h, c)\<close> and every
  threshold: when \<open>w * h\<close> is not zero, the predicate returns True exactly when the sum of
  all entries divided by \<open>w * h\<close> (the float64 quotient) is at most the threshold; the
  divisor does not depend on the number \<open>c\<close> of channels. In particular such an
  all-zero mask is accepted for every non-negative threshold. When \<open>w * h\<close> is zero, the
  quotient is NaN and the predicate returns False.
\<close>

theorem MaxCCPredicate_call_correct:
  assumes "shape a = [w, h, c]" and "well_shaped a"
  shows "(0 < w * h \<longrightarrow>
            MaxCCPredicate_call rnd self a =
              Inr (fle (Fin (rnd (real (sum_list (data a)) / real (w * h)))) (maxcc self)))
       \<and> (0 < w * h \<and> maxcc self = Fin m \<longrightarrow>
            MaxCCPredicate_call rnd self a =
              Inr (rnd (real (sum_list (data a)) / real (w * h)) \<le> m))
       \<and> (0 < w * h \<and> (\<forall>x \<in> set (data a). x = 0) \<and> rnd 0 = 0 \<and> fle (Fin 0) (maxcc self) \<longrightarrow>
            MaxCCPredicate_call rnd self a = Inr True)
       \<and> (w * h = 0 \<longrightarrow> MaxCCPredicate_call rnd self a = Inr False)"
proof (intro conjI impI)
  assume "0 < w * h"
  with assms(1) show "MaxCCPredicate_call rnd self a =
      Inr (fle (Fin (rnd (real (sum_list (data a)) / real (w * h)))) (maxcc self))"
    by (rule MaxCCPredicate_call_nonempty)
next
  assume h: "0 < w * h \<and> maxcc self = Fin m"
  then have "0 < w * h" by simp
  from MaxCCPredicate_call_nonempty[OF assms(1) this, of rnd self] h
  show "MaxCCPredicate_call rnd self a =
      Inr (rnd (real (sum_list (data a)) / real (w * h)) \<le> m)" by simp
next
  assume h: "0 < w * h \<and> (\<forall>x \<in> set (data a). x = 0) \<and> rnd 0 = 0 \<and> fle (Fin 0) (maxcc self)"
  then have s: "sum_list (data a) = 0" by (simp add: sum_list_all_zero)
  from h have "0 < w * h" by simp
  from MaxCCPredicate_call_nonempty[OF assms(1) this, of rnd self] s h
  show "MaxCCPredicate_call rnd self a = Inr True" by simp
next
  assume z: "w * h = 0"
  then have "length (data a) = 0"
    using assms by (auto simp add: well_shaped_def)
  then show "MaxCCPredicate_call rnd self a = Inr False"
    using assms(1) z by (simp add: MaxCCPredicate_call_def true_divide_def np_sum_def)
qed

theorem MaxCCPredicate_call_correct_witness:
  "MaxCCPredicate_call id (MaxCCPredicate_init (Fin 0.05)) \<lparr>shape = [2, 2, 1], data = [0, 0, 0, 0]\<rparr>
     = Inr True
   \<and> MaxCCPredicate_call id (MaxCCPredicate_init (Fin 0.05)) \<lparr>shape = [2, 2, 1], data = [0, 1, 0, 0]\<rparr>
     = Inr False
   \<and> MaxCCPredicate_call id (MaxCCPredicate_init (Fin 1)) \<lparr>shape = [1, 1, 2], data = [1, 1]\<rparr>
     = Inr False"
proof -
  let ?p = "MaxCCPredicate_init (Fin 0.05)"
  have "MaxCCPredicate_call id ?p \<lparr>shape = [2, 2, 1], data = [0, 0, 0, 0]\<rparr> = Inr True"
    using MaxCCPredicate_call_correct[where a = "\<lparr>shape = [2, 2, 1], data = [0, 0, 0, 0]\<rparr>"
        and w = 2 and h = 2 and c = 1 and self = ?p and m = "0.05" and rnd = id]
    by (simp add: well_shaped_def MaxCCPredicate_init_def)
  moreover
  have "MaxCCPredicate_call id ?p \<lparr>shape = [2, 2, 1], data = [0, 1, 0, 0]\<rparr> = Inr False"
    using MaxCCPredicate_call_correct[where a = "\<lparr>shape = [2, 2, 1], data = [0, 1, 0, 0]\<rparr>"
        and w = 2 and h = 2 and c = 1 and self = ?p and m = "0.05" and rnd = id]
    by (simp add: well_shaped_def MaxCCPredicate_init_def)
  moreover
  have "MaxCCPredicate_call id (MaxCCPredicate_init (Fin 1)) \<lparr>shape = [1, 1, 2], data = [1, 1]\<rparr>
          = Inr False"
    using MaxCCPredicate_call_correct[where a = "\<lparr>shape = [1, 1, 2], data = [1, 1]\<rparr>"
        and w = 1 and h = 1 and c = 2 and self = "MaxCCPredicate_init (Fin 1)" and m = 1
        and rnd = id]
    by (simp add: well_shaped_def MaxCCPredicate_init_def)
  ultimately show ?thesis by blast
qed

section \<open>Properties of make_gif\<close>

lemma chunks_length:
  "0 < n \<Longrightarrow> length xs = m * n \<Longrightarrow> p \<in> set (chunks n xs) \<Longrightarrow> length p = n"
proof (induction m arbitrary: xs)
  case 0
  then show ?case by (simp add: chunks.simps)
next
  case (Suc m)
  from Suc.prems have ne: "xs \<noteq> []" and len: "n \<le> length xs" by auto
  from Suc.prems(1) ne have unfold: "chunks n xs = take n xs # chunks n (drop n xs)"
    by (subst chunks.simps) simp
  from Suc.prems(2) have "length (drop n xs) = m * n" by simp
  with Suc.IH[OF Suc.prems(1) this] Suc.prems(3) unfold len show ?case by auto
qed

lemma prod_list_butlast_last:
  "s \<noteq> [] \<Longrightarrow> prod_list s = prod_list (butlast s) * (last s :: nat)"
proof -
  assume "s \<noteq> []"
  then have "s = butlast s @ [last s]" by simp
  then have "prod_list s = prod_list (butlast s @ [last s])" by simp
  then show ?thesis by simp
qed

lemma select_210_is_swap:
  "length p = 3 \<Longrightarrow> map (\<lambda>i. p ! i) [2, 1, 0] = swap_first_third p"
proof -
  assume "length p = 3"
  then obtain a b c where "p = [a, b, c]"
    by (cases p; cases "tl p"; cases "tl (tl p)") auto
  then show ?thesis by (simp add: swap_first_third_def)
qed

lemma gif_frame_Inr:
  assumes "gif_frame rnd img = Inr f"
  shows "shape img \<noteq> [] \<and> 3 \<le> last (shape img)
       \<and> shape f = butlast (shape img) @ [3]
       \<and> data f = map (\<lambda>x. to_uint8 (fclip 0 255 (fscale rnd 2.8 x)))
            (concat (map (\<lambda>p. [p ! 2, p ! 1, p ! 0]) (chunks (last (shape img)) (data img))))"
  using assms
  by (auto simp add: gif_frame_def take_last_axis_def Let_def astype_uint8_def np_clip_def
      np_scale_def fscale_def map_ndarray_def split: if_splits)

lemma take_last_axis_210_is_swap:
  assumes "well_shaped img" and "shape img \<noteq> []" and "last (shape img) = 3"
  shows "take_last_axis [2, 1, 0] img = Inr (spec_swap_channels img)"
proof -
  have "length (data img) = prod_list (butlast (shape img)) * 3"
    using assms prod_list_butlast_last[OF assms(2)] by (simp add: well_shaped_def)
  then have "\<forall>p \<in> set (chunks 3 (data img)). length p = 3"
    using chunks_length[of 3 "data img"] by auto
  then have "map (\<lambda>p. map (\<lambda>i. p ! i) [2, 1, 0]) (chunks 3 (data img))
           = map swap_first_third (chunks 3 (data img))"
    by (intro map_cong refl select_210_is_swap) auto
  then have "concat (map (\<lambda>p. map (\<lambda>i. p ! i) [2, 1, 0]) (chunks 3 (data img)))
           = concat (map swap_first_third (chunks 3 (data img)))"
    by (rule arg_cong)
  moreover have "butlast (shape img) @ [length [2, 1, 0::nat]] = shape img"
    using assms(2,3) append_butlast_last_id[of "shape img"] by (simp add: numeral_3_eq_3)
  ultimately show ?thesis
    using assms(2,3) by (simp add: take_last_axis_def spec_swap_channels_def)
qed

lemma gif_frame_three_channels:
  assumes "gif_frame rnd img = Inr f" and "well_shaped img" and "last (shape img) = 3"
  shows "f = spec_gif_frame rnd img"
proof -
  from gif_frame_Inr[OF assms(1)] have ne: "shape img \<noteq> []" by simp
  from assms(1) take_last_axis_210_is_swap[OF assms(2) ne assms(3)]
  show ?thesis by (simp add: gif_frame_def spec_gif_frame_def)
qed

lemma make_gif_loop_frames:
  "make_gif_loop rnd imgs w = (written, err) \<Longrightarrow>
     \<exists>fs. written = w @ fs \<and> length fs \<le> length imgs \<and>
       (\<forall>j < length fs. gif_frame rnd (imgs ! j) = Inr (fs ! j))"
proof (induction imgs arbitrary: w)
  case Nil
  then show ?case by simp
next
  case (Cons img rest)
  show ?case
  proof (cases "gif_frame rnd img")
    case (Inl e)
    with Cons.prems show ?thesis by simp
  next
    case (Inr f)
    with Cons.prems have "make_gif_loop rnd rest (w @ [f]) = (written, err)" by simp
    from Cons.IH[OF this] obtain fs where
      fs: "written = (w @ [f]) @ fs" "length fs \<le> length rest"
      "\<forall>j < length fs. gif_frame rnd (rest ! j) = Inr (fs ! j)" by blast
    have "\<forall>j < length (f # fs). gif_frame rnd ((img # rest) ! j) = Inr ((f # fs) ! j)"
      using fs(3) Inr by (auto simp add: nth_Cons split: nat.splits)
    with fs(1,2) show ?thesis
      by (intro exI[of _ "f # fs"]) simp
  qed
qed

text \<open>
  An image of one pixel with four channels 1, 2, 3, 4: the frame written has the three
  channels 3, 2, 1 (scaled and cast: 8, 5, 2), while the image with its first and third
  channels swapped keeps its fourth channel (8, 5, 2, 11). The products are exact here;
  rounded to float32 they are cast to the same bytes.
\<close>

theorem make_gif_four_channels:
  "fst (make_gif id [\<lparr>shape = [1, 1, 4], data = [Fin 1, Fin 2, Fin 3, Fin 4]\<rparr>])
     = [\<lparr>shape = [1, 1, 3], data = [8, 5, 2]\<rparr>]
   \<and> spec_gif_frame id \<lparr>shape = [1, 1, 4], data = [Fin 1, Fin 2, Fin 3, Fin 4]\<rparr>
     = \<lparr>shape = [1, 1, 4], data = [8, 5, 2, 11]\<rparr>
   \<and> fst (make_gif id [\<lparr>shape = [1, 1, 4], data = [Fin 1, Fin 2, Fin 3, Fin 4]\<rparr>])
     \<noteq> [spec_gif_frame id \<lparr>shape = [1, 1, 4], data = [Fin 1, Fin 2, Fin 3, Fin 4]\<rparr>]"
proof -
  have c: "chunks 4 [Fin 1, Fin 2, Fin 3, Fin 4] = [[Fin 1, Fin 2, Fin 3, Fin 4]]"
    by (simp add: chunks.simps)
  show ?thesis
    by (simp add: make_gif_def gif_frame_def take_last_axis_def c astype_uint8_def np_clip_def
        np_scale_def fscale_def map_ndarray_def float_trunc_def spec_gif_frame_def
        spec_swap_channels_def swap_first_third_def)
qed

text \<open>
  Claim C10, as amended. Every GIF frame written by \<^verbatim>\<open>make_gif\<close> is made of the third,
  second and first channel of the input image, in that order (for an image of exactly three
  channels: the image with its first and third channels swapped), scaled by 2.8, clamped to
  the interval [0, 255] and cast to uint8; hence every written pixel value lies in [0, 255],
  whatever the values of the input image.
\<close>

theorem make_gif_frames_written:
  assumes "make_gif rnd eopatch = (written, err)" and "i < length written"
  shows "i < length eopatch
     \<and> shape (written ! i) = butlast (shape (eopatch ! i)) @ [3]
     \<and> data (written ! i) =
         map (\<lambda>x. to_uint8 (fclip 0 255 (fscale rnd 2.8 x)))
           (concat (map (\<lambda>p. [p ! 2, p ! 1, p ! 0])
              (chunks (last (shape (eopatch ! i))) (data (eopatch ! i)))))
     \<and> (well_shaped (eopatch ! i) \<and> last (shape (eopatch ! i)) = 3 \<longrightarrow>
           written ! i = spec_gif_frame rnd (eopatch ! i))
     \<and> (\<forall>v \<in> set (data (written ! i)). 0 \<le> uint v \<and> uint v \<le> 255)"
proof -
  from assms(1) obtain fs where fs: "written = [] @ fs" "length fs \<le> length eopatch"
    "\<forall>j < length fs. gif_frame rnd (eopatch ! j) = Inr (fs ! j)"
    unfolding make_gif_def by (blast dest: make_gif_loop_frames)
  with assms(2) have g: "gif_frame rnd (eopatch ! i) = Inr (written ! i)"
    and l: "i < length eopatch"
    by auto
  have r: "\<forall>v \<in> set (data (written ! i)). 0 \<le> uint v \<and> uint v \<le> 255"
  proof
    fix v :: "8 word"
    show "0 \<le> uint v \<and> uint v \<le> 255" using uint_bounded[of v] by simp
  qed
  from gif_frame_Inr[OF g] gif_frame_three_channels[OF g] l r show ?thesis by blast
qed

theorem make_gif_frames_written_witness:
  "make_gif id [\<lparr>shape = [1, 1, 3], data = [Fin 1, Fin 200, PInf]\<rparr>]
     = ([\<lparr>shape = [1, 1, 3], data = [255, 255, 2]\<rparr>], None)
   \<and> well_shaped \<lparr>shape = [1, 1, 3], data = [Fin 1, Fin 200, PInf]\<rparr>
   \<and> spec_gif_frame id \<lparr>shape = [1, 1, 3], data = [Fin 1, Fin 200, PInf]\<rparr>
       = \<lparr>shape = [1, 1, 3], data = [255, 255, 2]\<rparr>"
proof -
  let ?img = "\<lparr>shape = [1, 1, 3], data = [Fin 1, Fin 200, PInf]\<rparr>"
  let ?f = "\<lparr>shape = [1, 1, 3], data = [255, 255, 2 :: 8 word]\<rparr>"
  have c: "chunks 3 [Fin 1, Fin 200, PInf] = [[Fin 1, Fin 200, PInf]]"
    by (simp add: chunks.simps)
  have m: "make_gif id [?img] = ([?f], None)"
    by (simp add: make_gif_def gif_frame_def take_last_axis_def c astype_uint8_def np_clip_def
        np_scale_def fscale_def map_ndarray_def float_trunc_def)
  have w: "well_shaped ?img" by (simp add: well_shaped_def)
  have l: "0 < length [?f]" by simp
  from make_gif_frames_written[OF m l]
  have "well_shaped ([?img] ! 0) \<and> last (shape ([?img] ! 0)) = 3 \<longrightarrow>
          [?f] ! 0 = spec_gif_frame id ([?img] ! 0)"
    by (elim conjE)
  with w have "spec_gif_frame id ?img = ?f" by simp
  with m w show ?thesis by (intro conjI)
qed

section \<open>Properties of the resampling of categorical layers\<close>

lemma pixel_at_values: "pixel_at src fill x y \<in> raster_values src \<union> {fill}"
  by (auto simp add: pixel_at_def raster_values_def intro!: bexI[of _ "src ! nat y"])

lemma resample_nearest_values:
  assumes "resample tol a src t Nearest shp fill = Inr out"
  shows "raster_values out \<subseteq> raster_values src \<union> {fill}"
proof -
  from assms obtain inv_t where b: "invert tol t = Inr inv_t"
    by (auto simp add: resample_def split: sum.splits)
  define g where "g = (\<lambda>y x. case apply_point inv_t (real x, real y) of None \<Rightarrow> fill
        | Some p \<Rightarrow> sample a Nearest src fill p)"
  have g: "g y x \<in> raster_values src \<union> {fill}" for x y
    using pixel_at_values[of src fill]
    by (auto simp add: g_def sample_nearest_def split: option.splits)
  from assms b have "out = map (\<lambda>y. map (g y) [0..<snd shp]) [0..<fst shp]"
    by (auto simp add: resample_def g_def)
  then have ex: "\<forall>v \<in> raster_values out. \<exists>y x. v = g y x"
    by (auto simp add: raster_values_def)
  show ?thesis
  proof
    fix v assume "v \<in> raster_values out"
    with ex obtain y x where "v = g y x" by blast
    with g[of y x] show "v \<in> raster_values src \<union> {fill}" by simp
  qed
qed

text \<open>
  A categorical layer of one pixel with label 5, moved by one pixel along \<open>x\<close> under the
  global configuration Cubic: the only output pixel is sampled at the source position
  \<open>(-1, 0)\<close>, which is out of bounds, and takes the no-data label 0, a value the input
  layer does not hold.
\<close>

theorem categorical_resampling_new_label:
  "resample_layer
      \<lparr>interpolation = Cubic, continuous_fill = 0, nodata_label = 0,
       singular_tolerance = 1 / 1000000, cubic_coefficient = - 1 / 2\<rparr>
      Categorical [[5]] (translation 1 0) = Inr [[0]]
   \<and> \<not> raster_values [[0]] \<subseteq> raster_values [[5]]"
  by (simp add: resample_layer_def resample_def invert_def translation_def raster_shape_def
      apply_point_def sample_nearest_def pixel_at_def round_def raster_values_def)

text \<open>
  Claim C2, as amended. For every categorical layer and every global interpolation
  configuration (Nearest, Linear or Cubic), resampling that layer uses nearest-neighbour
  interpolation, and every value of the output layer is a value of the input layer or the
  no-data label that fills the out-of-bounds positions: no blended value is introduced.
\<close>

theorem categorical_resampling:
  assumes "resample_layer cfg Categorical layer t = Inr out"
  shows "resample (singular_tolerance cfg) (cubic_coefficient cfg) layer t Nearest
           (raster_shape layer) (nodata_label cfg) = Inr out
       \<and> resample_layer (cfg\<lparr>interpolation := k\<rparr>) Categorical layer t = Inr out
       \<and> raster_values out \<subseteq> raster_values layer \<union> {nodata_label cfg}"
  using assms resample_nearest_values[of "singular_tolerance cfg" "cubic_coefficient cfg" layer t
      "raster_shape layer" "nodata_label cfg" out]
  by (simp add: resample_layer_def)

theorem categorical_resampling_witness:
  "resample_layer
      \<lparr>interpolation = Linear, continuous_fill = 0, nodata_label = 0,
       singular_tolerance = 1 / 1000000, cubic_coefficient = - 1 / 2\<rparr>
      Categorical [[1, 2], [3, 4]] (translation 1 0) = Inr [[0, 1], [0, 3]]
   \<and> raster_values [[0, 1], [0, 3]] \<subseteq> raster_values [[1, 2], [3, 4]] \<union> {0}"
proof -
  let ?cfg = "\<lparr>interpolation = Linear, continuous_fill = 0, nodata_label = 0,
       singular_tolerance = 1 / 1000000, cubic_coefficient = - 1 / 2\<rparr>"
  have r: "resample_layer ?cfg Categorical [[1, 2], [3, 4]] (translation 1 0)
             = Inr [[0, 1], [0, 3]]"
    by (simp add: resample_layer_def resample_def invert_def translation_def raster_shape_def
        apply_point_def sample_nearest_def pixel_at_def round_def upt_rec)
  from categorical_resampling[OF r] r show ?thesis by simp
qed

end
